theory Spec2Isabelle
  imports Main "HOL-Library.Word"
begin

section \<open>Data model of jemi.h\<close>

text \<open>
  A pointer to a node is an optional address; \<open>None\<close> is the C \<open>NULL\<close>.  The memory
  holding nodes is a partial map from addresses to nodes: an address without a node is
  memory that holds no \<open>jemi_node_t\<close>.  Addresses count in units of one node, so the
  element \<open>i\<close> of an array of nodes at \<open>pool\<close> is at \<open>pool + i\<close>.
\<close>

type_synonym ptr = "nat option"

datatype jemi_type_t =
  JEMI_NULL | JEMI_OBJECT | JEMI_ARRAY | JEMI_INTEGER | JEMI_FLOAT | JEMI_STRING
  | JEMI_TRUE | JEMI_FALSE

datatype jemi_state_t =
  JEMI_NODE_UNUSED | JEMI_CONTAINER_BEGUN | JEMI_KEY_USED | JEMI_VAL_USED
  | JEMI_CHILDREN_USED | JEMI_NODE_USED

text \<open>
  The numeric values of the two enumerations, as the C compiler assigns them.  The code
  compares a member of one enumeration with a member of the other in one place.
\<close>

fun type_code :: "jemi_type_t \<Rightarrow> nat" where
  "type_code JEMI_NULL = 0"
| "type_code JEMI_OBJECT = 1"
| "type_code JEMI_ARRAY = 2"
| "type_code JEMI_INTEGER = 3"
| "type_code JEMI_FLOAT = 4"
| "type_code JEMI_STRING = 5"
| "type_code JEMI_TRUE = 6"
| "type_code JEMI_FALSE = 7"

fun state_code :: "jemi_state_t \<Rightarrow> nat" where
  "state_code JEMI_NODE_UNUSED = 0"
| "state_code JEMI_CONTAINER_BEGUN = 1"
| "state_code JEMI_KEY_USED = 2"
| "state_code JEMI_VAL_USED = 3"
| "state_code JEMI_CHILDREN_USED = 4"
| "state_code JEMI_NODE_USED = 5"

text \<open>
  The anonymous union of a node holds one of its members at a time.  \<open>U_zero\<close> is the
  union as \<open>memset\<close> leaves it (all bytes zero): every member reads as zero or \<open>NULL\<close>
  there.  A \<open>double\<close> is kept as its 64-bit pattern.  Reading a member other than the one
  stored depends on the memory layout and is a fault of the model.
\<close>

type_synonym double = "64 word"

datatype jemi_union =
  U_zero | U_integer "32 word" | U_number double | U_string "string option" | U_children ptr

record jemi_node_t =
  sibling :: ptr
  parent :: ptr
  type :: jemi_type_t
  state :: jemi_state_t
  key :: "string option"
  payload :: jemi_union
  update :: "nat option"

record jemi_out_buf_t =
  buf :: string
  bufLen :: "16 word"
  full :: bool

datatype fault = Null_deref | Wild_pointer | Union_misread | Null_string | Va_overrun

type_synonym heap = "nat \<Rightarrow> jemi_node_t option"

text \<open>
  The state of the program: the node memory, the global \<open>s_jemi_freelist\<close> and the
  function-static \<open>left\<close> of \<open>emit_aux\<close> (initially \<open>-1\<close>).
\<close>

record world =
  heap :: heap
  s_jemi_freelist :: ptr
  left :: int

definition zero_node :: jemi_node_t where
  "zero_node = \<lparr>sibling = None, parent = None, type = JEMI_NULL, state = JEMI_NODE_UNUSED,
     key = None, payload = U_zero, update = None\<rparr>"

section \<open>Arena\<close>

text \<open>
  \<open>memset(pool, 0, pool_size * sizeof(jemi_node_t))\<close>: the caller's array becomes
  \<open>pool_size\<close> zeroed nodes.
\<close>

definition memset_pool :: "nat \<Rightarrow> nat \<Rightarrow> heap \<Rightarrow> heap" where
  "memset_pool pool pool_size h =
     (\<lambda>a. if pool \<le> a \<and> a < pool + pool_size then Some zero_node else h a)"

text \<open>
  The loop of \<open>jemi_reset\<close>, from index \<open>i\<close>: \<open>node->sibling = next; next = node\<close>.
  (The C index is an \<open>int\<close>; the model covers pools of fewer than \<open>2^31\<close> nodes.)
\<close>

function reset_loop :: "nat \<Rightarrow> nat \<Rightarrow> nat \<Rightarrow> ptr \<Rightarrow> heap \<Rightarrow> ptr \<times> heap" where
  "reset_loop pool pool_size i next h =
     (if i < pool_size
      then reset_loop pool pool_size (i + 1) (Some (pool + i))
             (h(pool + i := map_option (\<lambda>n. n\<lparr>sibling := next\<rparr>) (h (pool + i))))
      else (next, h))"
  by pat_completeness auto
termination
  by (relation "measure (\<lambda>(pool, pool_size, i, next, h). pool_size - i)") auto

definition jemi_reset :: "nat \<Rightarrow> nat \<Rightarrow> world \<Rightarrow> world" where
  "jemi_reset pool pool_size w =
     (let (next, h) = reset_loop pool pool_size 0 None (memset_pool pool pool_size (heap w))
      in w\<lparr>heap := h, s_jemi_freelist := next\<rparr>)"

text \<open>\<open>jemi_alloc\<close>: pop one node from the freelist, or return \<open>NULL\<close>.\<close>

definition jemi_alloc :: "jemi_type_t \<Rightarrow> world \<Rightarrow> fault + (ptr \<times> world)" where
  "jemi_alloc t w =
     (case s_jemi_freelist w of
        None \<Rightarrow> Inr (None, w)
      | Some a \<Rightarrow>
          (case heap w a of
             None \<Rightarrow> Inl Wild_pointer
           | Some n \<Rightarrow>
               Inr (Some a,
                    w\<lparr>s_jemi_freelist := sibling n,
                      heap := (heap w)(a \<mapsto> n\<lparr>sibling := None, type := t,
                                                   state := JEMI_NODE_UNUSED\<rparr>)\<rparr>)))"

text \<open>
  \<open>jemi_available\<close> walks the freelist and counts.  The walk does not end on a cyclic
  list, so the loop is a partial function: \<open>None\<close> is "does not return".
\<close>

partial_function (option) available_loop :: "heap \<Rightarrow> ptr \<Rightarrow> nat \<Rightarrow> (fault + nat) option" where
  [code]: "available_loop h node count =
     (case node of
        None \<Rightarrow> Some (Inr count)
      | Some a \<Rightarrow>
          (case h a of
             None \<Rightarrow> Some (Inl Wild_pointer)
           | Some n \<Rightarrow> available_loop h (sibling n) (count + 1)))"

definition jemi_available :: "world \<Rightarrow> (fault + nat) option" where
  "jemi_available w = available_loop (heap w) (s_jemi_freelist w) 0"

text \<open>A caller that allocates one node per element of a list of types, in order.\<close>

fun alloc_many :: "jemi_type_t list \<Rightarrow> world \<Rightarrow> fault + (ptr list \<times> world)" where
  "alloc_many [] w = Inr ([], w)"
| "alloc_many (t # ts) w =
     (case jemi_alloc t w of
        Inl e \<Rightarrow> Inl e
      | Inr (p, w') \<Rightarrow>
          (case alloc_many ts w' of
             Inl e \<Rightarrow> Inl e
           | Inr (ps, w'') \<Rightarrow> Inr (p # ps, w'')))"

section \<open>Reading the union\<close>

definition get_children :: "jemi_union \<Rightarrow> fault + ptr" where
  "get_children u =
     (case u of U_zero \<Rightarrow> Inr None | U_children p \<Rightarrow> Inr p | _ \<Rightarrow> Inl Union_misread)"

definition get_string :: "jemi_union \<Rightarrow> fault + string option" where
  "get_string u =
     (case u of U_zero \<Rightarrow> Inr None | U_string s \<Rightarrow> Inr s | _ \<Rightarrow> Inl Union_misread)"

definition get_integer :: "jemi_union \<Rightarrow> fault + 32 word" where
  "get_integer u =
     (case u of U_zero \<Rightarrow> Inr 0 | U_integer i \<Rightarrow> Inr i | _ \<Rightarrow> Inl Union_misread)"

definition get_number :: "jemi_union \<Rightarrow> fault + double" where
  "get_number u =
     (case u of U_zero \<Rightarrow> Inr 0 | U_number d \<Rightarrow> Inr d | _ \<Rightarrow> Inl Union_misread)"

section \<open>Constructors\<close>

text \<open>
  The variadic constructors take \<open>element\<close> and then the variadic arguments \<open>ap\<close>, in
  order.  Each round of the loop takes the next argument with \<open>va_arg\<close>; taking one
  when none is left is the fault \<open>Va_overrun\<close> (the caller must end the list with
  \<open>NULL\<close>).
\<close>

fun link_loop :: "ptr \<Rightarrow> ptr \<Rightarrow> ptr list \<Rightarrow> heap \<Rightarrow> fault + heap" where
  "link_loop root None ap h = Inr h"
| "link_loop root (Some e) ap h =
     (case h e of
        None \<Rightarrow> Inl Wild_pointer
      | Some n \<Rightarrow>
          (case ap of
             [] \<Rightarrow> Inl Va_overrun
           | nxt # ap' \<Rightarrow> link_loop root nxt ap' (h(e \<mapsto> n\<lparr>sibling := nxt, parent := root\<rparr>))))"

text \<open>The body shared by \<open>jemi_array\<close>, \<open>jemi_array_updateable\<close> and \<open>jemi_object\<close>.\<close>

definition container ::
  "jemi_type_t \<Rightarrow> string option \<Rightarrow> nat option option \<Rightarrow> ptr \<Rightarrow> ptr list \<Rightarrow> world
     \<Rightarrow> fault + (ptr \<times> world)" where
  "container t k upd element ap w =
     (case jemi_alloc t w of
        Inl e \<Rightarrow> Inl e
      | Inr (root, w1) \<Rightarrow>
          (case root of
             None \<Rightarrow> Inl Null_deref
           | Some r \<Rightarrow>
               (case heap w1 r of
                  None \<Rightarrow> Inl Wild_pointer
                | Some n \<Rightarrow>
                    (let n1 = n\<lparr>key := k\<rparr>;
                         n2 = (case upd of None \<Rightarrow> n1 | Some u \<Rightarrow> n1\<lparr>update := u\<rparr>);
                         n3 = n2\<lparr>payload := U_children element\<rparr>
                     in case link_loop root element ap ((heap w1)(r \<mapsto> n3)) of
                          Inl e \<Rightarrow> Inl e
                        | Inr h \<Rightarrow> Inr (root, w1\<lparr>heap := h\<rparr>)))))"

definition jemi_array :: "string option \<Rightarrow> ptr \<Rightarrow> ptr list \<Rightarrow> world \<Rightarrow> fault + (ptr \<times> world)" where
  "jemi_array k element ap w = container JEMI_ARRAY k None element ap w"

definition jemi_array_updateable ::
  "string option \<Rightarrow> nat option \<Rightarrow> 8 word \<Rightarrow> ptr \<Rightarrow> ptr list \<Rightarrow> world
     \<Rightarrow> fault + (ptr \<times> world)" where
  "jemi_array_updateable k upd length' element ap w =
     container JEMI_ARRAY k (Some upd) element ap w"

definition jemi_object :: "string option \<Rightarrow> ptr \<Rightarrow> ptr list \<Rightarrow> world \<Rightarrow> fault + (ptr \<times> world)" where
  "jemi_object k element ap w = container JEMI_OBJECT k None element ap w"

fun list_loop :: "ptr \<Rightarrow> ptr list \<Rightarrow> heap \<Rightarrow> fault + heap" where
  "list_loop None ap h = Inr h"
| "list_loop (Some e) ap h =
     (case h e of
        None \<Rightarrow> Inl Wild_pointer
      | Some n \<Rightarrow>
          (case ap of
             [] \<Rightarrow> Inl Va_overrun
           | nxt # ap' \<Rightarrow> list_loop nxt ap' (h(e \<mapsto> n\<lparr>sibling := nxt\<rparr>))))"

definition jemi_list :: "ptr \<Rightarrow> ptr list \<Rightarrow> world \<Rightarrow> fault + (ptr \<times> world)" where
  "jemi_list element ap w =
     (case list_loop element ap (heap w) of
        Inl e \<Rightarrow> Inl e
      | Inr h \<Rightarrow> Inr (element, w\<lparr>heap := h\<rparr>))"

text \<open>\<open>if (node) { node->key = key; node->... = ...; }\<close> of the scalar constructors.\<close>

definition init_scalar :: "string option \<Rightarrow> jemi_union \<Rightarrow> ptr \<Rightarrow> world \<Rightarrow> fault + (ptr \<times> world)" where
  "init_scalar k u node w =
     (case node of
        None \<Rightarrow> Inr (None, w)
      | Some a \<Rightarrow>
          (case heap w a of
             None \<Rightarrow> Inl Wild_pointer
           | Some n \<Rightarrow> Inr (node, w\<lparr>heap := (heap w)(a \<mapsto> n\<lparr>key := k, payload := u\<rparr>)\<rparr>)))"

definition jemi_integer :: "string option \<Rightarrow> 32 word \<Rightarrow> world \<Rightarrow> fault + (ptr \<times> world)" where
  "jemi_integer k i w =
     (case jemi_alloc JEMI_INTEGER w of
        Inl e \<Rightarrow> Inl e
      | Inr (node, w1) \<Rightarrow> init_scalar k (U_integer i) node w1)"

definition jemi_string :: "string option \<Rightarrow> string option \<Rightarrow> world \<Rightarrow> fault + (ptr \<times> world)" where
  "jemi_string k s w =
     (case jemi_alloc JEMI_STRING w of
        Inl e \<Rightarrow> Inl e
      | Inr (node, w1) \<Rightarrow> init_scalar k (U_string s) node w1)"

definition jemi_true :: "world \<Rightarrow> fault + (ptr \<times> world)" where
  "jemi_true w = jemi_alloc JEMI_TRUE w"

definition jemi_false :: "world \<Rightarrow> fault + (ptr \<times> world)" where
  "jemi_false w = jemi_alloc JEMI_FALSE w"

definition jemi_null :: "world \<Rightarrow> fault + (ptr \<times> world)" where
  "jemi_null w = jemi_alloc JEMI_NULL w"

text \<open>\<open>jemi_bool\<close> stores the key through the pointer it got, without a test.\<close>

definition jemi_bool :: "string option \<Rightarrow> bool \<Rightarrow> world \<Rightarrow> fault + (ptr \<times> world)" where
  "jemi_bool k boolean w =
     (case (if boolean then jemi_true w else jemi_false w) of
        Inl e \<Rightarrow> Inl e
      | Inr (node, w1) \<Rightarrow>
          (case node of
             None \<Rightarrow> Inl Null_deref
           | Some a \<Rightarrow>
               (case heap w1 a of
                  None \<Rightarrow> Inl Wild_pointer
                | Some n \<Rightarrow> Inr (node, w1\<lparr>heap := (heap w1)(a \<mapsto> n\<lparr>key := k\<rparr>)\<rparr>))))"

section \<open>Appending\<close>

text \<open>
  The walk to the last element of a list, \<open>while (node) { prev = node; node = node->sibling; }\<close>.
  It does not end on a cyclic list: \<open>None\<close> is "does not return".
\<close>

partial_function (option) walk_last :: "heap \<Rightarrow> ptr \<Rightarrow> ptr \<Rightarrow> (fault + ptr) option" where
  [code]: "walk_last h prev node =
     (case node of
        None \<Rightarrow> Some (Inr prev)
      | Some a \<Rightarrow>
          (case h a of
             None \<Rightarrow> Some (Inl Wild_pointer)
           | Some n \<Rightarrow> walk_last h node (sibling n)))"

definition jemi_list_append :: "ptr \<Rightarrow> ptr \<Rightarrow> heap \<Rightarrow> (fault + (ptr \<times> heap)) option" where
  "jemi_list_append list items h =
     (if list = None then Some (Inr (items, h))
      else
        (case walk_last h None list of
           None \<Rightarrow> None
         | Some (Inl e) \<Rightarrow> Some (Inl e)
         | Some (Inr prev) \<Rightarrow>
             (case prev of
                None \<Rightarrow> Some (Inr (list, h))
              | Some p \<Rightarrow>
                  (case h p of
                     None \<Rightarrow> Some (Inl Wild_pointer)
                   | Some n \<Rightarrow> Some (Inr (list, h(p \<mapsto> n\<lparr>sibling := items\<rparr>)))))))"

text \<open>
  \<open>jemi_array_append\<close>: \<open>items->parent = array\<close> comes first, through \<open>items\<close> as
  given; then, for a container that is not \<open>NULL\<close>, the items are hung behind its
  children.
\<close>

definition jemi_array_append :: "ptr \<Rightarrow> ptr \<Rightarrow> world \<Rightarrow> (fault + (ptr \<times> world)) option" where
  "jemi_array_append array items w =
     (case items of
        None \<Rightarrow> Some (Inl Null_deref)
      | Some i \<Rightarrow>
          (case heap w i of
             None \<Rightarrow> Some (Inl Wild_pointer)
           | Some n \<Rightarrow>
               (let h1 = (heap w)(i \<mapsto> n\<lparr>parent := array\<rparr>) in
                case array of
                  None \<Rightarrow> Some (Inr (array, w\<lparr>heap := h1\<rparr>))
                | Some a \<Rightarrow>
                    (case h1 a of
                       None \<Rightarrow> Some (Inl Wild_pointer)
                     | Some an \<Rightarrow>
                         (case get_children (payload an) of
                            Inl e \<Rightarrow> Some (Inl e)
                          | Inr c \<Rightarrow>
                              (case jemi_list_append c items h1 of
                                 None \<Rightarrow> None
                               | Some (Inl e) \<Rightarrow> Some (Inl e)
                               | Some (Inr (l, h2)) \<Rightarrow>
                                   (case h2 a of
                                      None \<Rightarrow> Some (Inl Wild_pointer)
                                    | Some an2 \<Rightarrow>
                                        Some (Inr (array,
                                          w\<lparr>heap := h2(a \<mapsto> an2\<lparr>payload := U_children l\<rparr>)\<rparr>)))))))))"

text \<open>\<open>jemi_object_append\<close> has the same body, with \<open>object\<close> for \<open>array\<close>.\<close>

definition jemi_object_append :: "ptr \<Rightarrow> ptr \<Rightarrow> world \<Rightarrow> (fault + (ptr \<times> world)) option" where
  "jemi_object_append object items w = jemi_array_append object items w"

section \<open>Setters\<close>

text \<open>A store through a pointer with no test before it: \<open>p->field = v\<close>.\<close>

definition store :: "(jemi_node_t \<Rightarrow> jemi_node_t) \<Rightarrow> ptr \<Rightarrow> world \<Rightarrow> fault + world" where
  "store f node w =
     (case node of
        None \<Rightarrow> Inl Null_deref
      | Some a \<Rightarrow>
          (case heap w a of
             None \<Rightarrow> Inl Wild_pointer
           | Some n \<Rightarrow> Inr (w\<lparr>heap := (heap w)(a \<mapsto> f n)\<rparr>)))"

text \<open>A store behind a test, \<open>if (p) { p->field = v; }\<close>, returning \<open>p\<close>.\<close>

definition set_node :: "(jemi_node_t \<Rightarrow> jemi_node_t) \<Rightarrow> ptr \<Rightarrow> world \<Rightarrow> fault + (ptr \<times> world)" where
  "set_node f node w =
     (case node of
        None \<Rightarrow> Inr (None, w)
      | Some a \<Rightarrow>
          (case heap w a of
             None \<Rightarrow> Inl Wild_pointer
           | Some n \<Rightarrow> Inr (node, w\<lparr>heap := (heap w)(a \<mapsto> f n)\<rparr>)))"

definition jemi_float_set :: "ptr \<Rightarrow> double \<Rightarrow> world \<Rightarrow> fault + (ptr \<times> world)" where
  "jemi_float_set node number w = set_node (\<lambda>n. n\<lparr>payload := U_number number\<rparr>) node w"

text \<open>The parameter is an \<open>int64_t\<close>, the member an \<open>int\<close>: the store keeps the low 32 bits.\<close>

definition jemi_integer_set :: "ptr \<Rightarrow> 64 word \<Rightarrow> world \<Rightarrow> fault + (ptr \<times> world)" where
  "jemi_integer_set node i w = set_node (\<lambda>n. n\<lparr>payload := U_integer (ucast i)\<rparr>) node w"

definition jemi_string_set :: "ptr \<Rightarrow> string option \<Rightarrow> world \<Rightarrow> fault + (ptr \<times> world)" where
  "jemi_string_set node s w = set_node (\<lambda>n. n\<lparr>payload := U_string s\<rparr>) node w"

definition jemi_bool_set :: "ptr \<Rightarrow> bool \<Rightarrow> world \<Rightarrow> fault + (ptr \<times> world)" where
  "jemi_bool_set node boolean w =
     set_node (\<lambda>n. n\<lparr>type := (if boolean then JEMI_TRUE else JEMI_FALSE)\<rparr>) node w"

section \<open>Copying\<close>

text \<open>
  \<open>copy_node\<close> and \<open>jemi_copy\<close> call each other; on a cyclic structure with a cyclic
  freelist they do not return.  Both take fuel, one unit per call; \<open>None\<close> is "out of
  fuel".  \<open>copy_loop\<close> is the \<open>while\<close> loop of \<open>jemi_copy\<close> with its local variables.
\<close>

fun copy_node :: "nat \<Rightarrow> ptr \<Rightarrow> world \<Rightarrow> (fault + (ptr \<times> world)) option"
  and copy_loop :: "nat \<Rightarrow> ptr \<Rightarrow> ptr \<Rightarrow> ptr \<Rightarrow> world \<Rightarrow> (fault + (ptr \<times> world)) option"
where
  "copy_node 0 node w = None"
| "copy_node (Suc fuel) node w =
     (case node of
        None \<Rightarrow> Some (Inr (None, w))
      | Some a \<Rightarrow>
          (case heap w a of
             None \<Rightarrow> Some (Inl Wild_pointer)
           | Some n0 \<Rightarrow>
               (case jemi_alloc (type n0) w of
                  Inl e \<Rightarrow> Some (Inl e)
                | Inr (copy, w1) \<Rightarrow>
                    (case heap w1 a of
                       None \<Rightarrow> Some (Inl Wild_pointer)
                     | Some n \<Rightarrow>
                         (if type n = JEMI_ARRAY \<or> type n = JEMI_OBJECT then
                            (case get_children (payload n) of
                               Inl e \<Rightarrow> Some (Inl e)
                             | Inr c \<Rightarrow>
                                 (case copy_loop fuel c None None w1 of
                                    None \<Rightarrow> None
                                  | Some (Inl e) \<Rightarrow> Some (Inl e)
                                  | Some (Inr (r2, w2)) \<Rightarrow>
                                      Some (case store (\<lambda>m. m\<lparr>payload := U_children r2\<rparr>) copy w2 of
                                              Inl e \<Rightarrow> Inl e
                                            | Inr w3 \<Rightarrow> Inr (copy, w3))))
                          else if type n = JEMI_STRING then
                            (case get_string (payload n) of
                               Inl e \<Rightarrow> Some (Inl e)
                             | Inr s \<Rightarrow>
                                 Some (case store (\<lambda>m. m\<lparr>payload := U_string s\<rparr>) copy w1 of
                                         Inl e \<Rightarrow> Inl e
                                       | Inr w3 \<Rightarrow> Inr (copy, w3)))
                          else if type n = JEMI_INTEGER then
                            (case get_integer (payload n) of
                               Inl e \<Rightarrow> Some (Inl e)
                             | Inr i \<Rightarrow>
                                 Some (case store (\<lambda>m. m\<lparr>payload := U_integer i\<rparr>) copy w1 of
                                         Inl e \<Rightarrow> Inl e
                                       | Inr w3 \<Rightarrow> Inr (copy, w3)))
                          else Some (Inr (copy, w1)))))))"
| "copy_loop 0 root r2 prev w = None"
| "copy_loop (Suc fuel) root r2 prev w =
     (case copy_node fuel root w of
        None \<Rightarrow> None
      | Some (Inl e) \<Rightarrow> Some (Inl e)
      | Some (Inr (None, w1)) \<Rightarrow> Some (Inr (r2, w1))
      | Some (Inr (Some c, w1)) \<Rightarrow>
          (let r2' = (if r2 = None then Some c else r2) in
           case set_node (\<lambda>m. m\<lparr>sibling := Some c\<rparr>) prev w1 of
             Inl e \<Rightarrow> Some (Inl e)
           | Inr (p, w2) \<Rightarrow>
               (case root of
                  None \<Rightarrow> Some (Inl Null_deref)
                | Some r \<Rightarrow>
                    (case heap w2 r of
                       None \<Rightarrow> Some (Inl Wild_pointer)
                     | Some rn \<Rightarrow> copy_loop fuel (sibling rn) r2' (Some c) w2))))"

definition jemi_copy :: "nat \<Rightarrow> ptr \<Rightarrow> world \<Rightarrow> (fault + (ptr \<times> world)) option" where
  "jemi_copy fuel root w = copy_loop fuel root None None w"

section \<open>Text of the fragments\<close>

text \<open>
  A C string is the characters before the first NUL.  \<open>snprintf\<close> into a buffer of
  \<open>size\<close> bytes keeps the first \<open>size - 1\<close> characters of the formatted text.
\<close>

definition c_str :: "string \<Rightarrow> string" where
  "c_str s = takeWhile (\<lambda>c. c \<noteq> CHR 0x00) s"

definition strlen :: "string \<Rightarrow> nat" where
  "strlen s = length (c_str s)"

definition snprintf :: "nat \<Rightarrow> string \<Rightarrow> string" where
  "snprintf size' text = take (size' - 1) text"

definition dq :: char where
  "dq = CHR 0x22"

fun dec :: "nat \<Rightarrow> string" where
  "dec n = (if n < 10 then [''0123456789'' ! n] else dec (n div 10) @ [''0123456789'' ! (n mod 10)])"

text \<open>The formats \<open>%d\<close>, \<open>"%s":\<close> and \<open>"%s"\<close>.\<close>

definition fmt_d :: "32 word \<Rightarrow> string" where
  "fmt_d i = (if sint i < 0 then CHR ''-'' # dec (nat (- sint i)) else dec (nat (sint i)))"

definition fmt_key :: "string \<Rightarrow> string" where
  "fmt_key k = dq # c_str k @ [dq, CHR '':'']"

definition fmt_str :: "string \<Rightarrow> string" where
  "fmt_str s = dq # c_str s @ [dq]"

section \<open>Emission\<close>

text \<open>
  \<open>emit_string\<close> returns the updated sink and the C result (true: the data did not fit).
  The right-hand side of the comparison is the \<open>int\<close> value \<open>bufLen - 1\<close> converted to
  \<open>size_t\<close>: for \<open>bufLen = 0\<close> it is the largest \<open>size_t\<close>, which no sum of two string
  lengths exceeds.
\<close>

type_synonym writer_t = "char \<Rightarrow> string \<Rightarrow> string"

definition emit_string :: "writer_t \<Rightarrow> jemi_out_buf_t \<Rightarrow> string \<Rightarrow> jemi_out_buf_t \<times> bool" where
  "emit_string writer_fn output data =
     (if bufLen output \<noteq> 0 \<and> strlen (buf output) + strlen data > unat (bufLen output) - 1
      then (output\<lparr>full := True\<rparr>, True)
      else (output\<lparr>buf := foldl (\<lambda>b ch. writer_fn ch b) (buf output) (c_str data)\<rparr>, False))"

text \<open>
  The blocks that the cases of \<open>emit_aux\<close> repeat, as functions on the node being
  emitted and the sink.  \<open>frag_step\<close>: in state \<open>s\<close>, emit the text and move to \<open>s'\<close> when
  it was written.
\<close>

definition frag_step ::
  "writer_t \<Rightarrow> jemi_state_t \<Rightarrow> jemi_state_t \<Rightarrow> string \<Rightarrow> jemi_node_t \<times> jemi_out_buf_t
     \<Rightarrow> jemi_node_t \<times> jemi_out_buf_t" where
  "frag_step writer_fn s s' text = (\<lambda>(n, output).
     if state n = s then
       (case emit_string writer_fn output text of
          (output', failed) \<Rightarrow> (if \<not> failed then n\<lparr>state := s'\<rparr> else n, output'))
     else (n, output))"

text \<open>\<open>if (JEMI_NODE_UNUSED == node->state) { if (node->key) ... else ... }\<close>\<close>

definition key_step ::
  "nat \<Rightarrow> writer_t \<Rightarrow> jemi_node_t \<times> jemi_out_buf_t \<Rightarrow> jemi_node_t \<times> jemi_out_buf_t" where
  "key_step size' writer_fn = (\<lambda>(n, output).
     if state n = JEMI_NODE_UNUSED then
       (case key n of
          Some k \<Rightarrow>
            frag_step writer_fn JEMI_NODE_UNUSED JEMI_KEY_USED (snprintf size' (fmt_key k)) (n, output)
        | None \<Rightarrow> (n\<lparr>state := JEMI_KEY_USED\<rparr>, output))
     else (n, output))"

text \<open>\<open>if (JEMI_KEY_USED == node->state) { snprintf(...); if (!emit_string(...)) ... }\<close>\<close>

definition value_step ::
  "writer_t \<Rightarrow> (jemi_node_t \<Rightarrow> fault + string) \<Rightarrow> jemi_node_t \<times> jemi_out_buf_t
     \<Rightarrow> fault + (jemi_node_t \<times> jemi_out_buf_t)" where
  "value_step writer_fn text = (\<lambda>(n, output).
     if state n = JEMI_KEY_USED then
       (case text n of
          Inl e \<Rightarrow> Inl e
        | Inr t \<Rightarrow> Inr (frag_step writer_fn JEMI_KEY_USED JEMI_VAL_USED t (n, output)))
     else Inr (n, output))"

text \<open>\<open>if (JEMI_VAL_USED == node->state) { if (node->sibling) ... else ... }\<close>\<close>

definition comma_step ::
  "writer_t \<Rightarrow> jemi_node_t \<times> jemi_out_buf_t \<Rightarrow> jemi_node_t \<times> jemi_out_buf_t" where
  "comma_step writer_fn = (\<lambda>(n, output).
     if state n = JEMI_VAL_USED then
       (if sibling n \<noteq> None
        then frag_step writer_fn JEMI_VAL_USED JEMI_NODE_USED '','' (n, output)
        else (n\<lparr>state := JEMI_NODE_USED\<rparr>, output))
     else (n, output))"

definition scalar ::
  "nat \<Rightarrow> writer_t \<Rightarrow> (jemi_node_t \<Rightarrow> fault + string) \<Rightarrow> jemi_node_t \<times> jemi_out_buf_t
     \<Rightarrow> fault + (jemi_node_t \<times> jemi_out_buf_t)" where
  "scalar size' writer_fn text r =
     (case value_step writer_fn text (key_step size' writer_fn r) of
        Inl e \<Rightarrow> Inl e
      | Inr r' \<Rightarrow> Inr (comma_step writer_fn r'))"

text \<open>The text of the value of each scalar case, as \<open>snprintf\<close> leaves it in \<open>buf\<close>.\<close>

definition integer_text :: "jemi_node_t \<Rightarrow> fault + string" where
  "integer_text n =
     (case get_integer (payload n) of Inl e \<Rightarrow> Inl e | Inr i \<Rightarrow> Inr (snprintf 22 (fmt_d i)))"

text \<open>
  The two formats of the \<open>JEMI_FLOAT\<close> case (\<open>%d\<close> of the truncated value when it equals
  the number, \<open>%lf\<close> otherwise) are floating-point arithmetic of the C library; the
  parameter \<open>float_text\<close> stands for the text they produce from a \<open>double\<close>.
\<close>

definition number_text :: "(double \<Rightarrow> string) \<Rightarrow> jemi_node_t \<Rightarrow> fault + string" where
  "number_text float_text n =
     (case get_number (payload n) of
        Inl e \<Rightarrow> Inl e
      | Inr d \<Rightarrow> Inr (snprintf 22 (float_text d)))"

text \<open>\<open>%s\<close> of a \<open>NULL\<close> string is the fault \<open>Null_string\<close>.\<close>

definition string_text :: "jemi_node_t \<Rightarrow> fault + string" where
  "string_text n =
     (case get_string (payload n) of
        Inl e \<Rightarrow> Inl e
      | Inr None \<Rightarrow> Inl Null_string
      | Inr (Some s) \<Rightarrow> Inr (snprintf 30 (fmt_str s)))"

text \<open>\<open>JEMI_TRUE == node->state ? "true" : "false"\<close>, on the values of the enumerators.\<close>

definition bool_text :: "jemi_node_t \<Rightarrow> fault + string" where
  "bool_text n =
     Inr (if type_code JEMI_TRUE = state_code (state n) then ''true'' else ''false'')"

definition null_text :: "jemi_node_t \<Rightarrow> fault + string" where
  "null_text n = Inr ''null''"

text \<open>The closing bracket, with a comma when a sibling follows.\<close>

definition closing :: "char \<Rightarrow> jemi_node_t \<Rightarrow> string" where
  "closing c n = (if sibling n \<noteq> None then snprintf 3 [c, CHR '',''] else snprintf 3 [c])"

text \<open>The end of \<open>emit_aux\<close>: which node comes next.\<close>

definition onward :: "nat \<Rightarrow> jemi_node_t \<Rightarrow> ptr" where
  "onward a n =
     (if state n \<noteq> JEMI_NODE_USED then Some a
      else if sibling n \<noteq> None then sibling n
      else if parent n \<noteq> None then parent n
      else None)"

definition put_node :: "nat \<Rightarrow> jemi_node_t \<Rightarrow> world \<Rightarrow> world" where
  "put_node a n w = w\<lparr>heap := (heap w)(a \<mapsto> n)\<rparr>"

definition leave ::
  "nat \<Rightarrow> world \<Rightarrow> jemi_node_t \<times> jemi_out_buf_t \<Rightarrow> fault + (ptr \<times> world \<times> jemi_out_buf_t)" where
  "leave a w = (\<lambda>(n, output). Inr (onward a n, put_node a n w, output))"

text \<open>\<open>node->state = JEMI_CHILDREN_USED; return node->children;\<close>\<close>

definition descend ::
  "nat \<Rightarrow> world \<Rightarrow> jemi_node_t \<times> jemi_out_buf_t \<Rightarrow> fault + (ptr \<times> world \<times> jemi_out_buf_t)" where
  "descend a w = (\<lambda>(n, output).
     case get_children (payload n) of
       Inl e \<Rightarrow> Inl e
     | Inr c \<Rightarrow> Inr (c, put_node a (n\<lparr>state := JEMI_CHILDREN_USED\<rparr>) w, output))"

definition close_container ::
  "writer_t \<Rightarrow> char \<Rightarrow> nat \<Rightarrow> world \<Rightarrow> jemi_node_t \<times> jemi_out_buf_t
     \<Rightarrow> fault + (ptr \<times> world \<times> jemi_out_buf_t)" where
  "close_container writer_fn c a w = (\<lambda>(n, output).
     leave a w (frag_step writer_fn JEMI_CHILDREN_USED JEMI_NODE_USED (closing c n) (n, output)))"

definition emit_object ::
  "writer_t \<Rightarrow> nat \<Rightarrow> jemi_node_t \<Rightarrow> world \<Rightarrow> jemi_out_buf_t
     \<Rightarrow> fault + (ptr \<times> world \<times> jemi_out_buf_t)" where
  "emit_object writer_fn a n w output =
     (case frag_step writer_fn JEMI_KEY_USED JEMI_CONTAINER_BEGUN ''{''
             (key_step 22 writer_fn (n, output)) of
        (n1, o1) \<Rightarrow>
          if state n1 = JEMI_CONTAINER_BEGUN then descend a w (n1, o1)
          else if state n1 = JEMI_CHILDREN_USED then close_container writer_fn CHR ''}'' a w (n1, o1)
          else leave a w (n1, o1))"

text \<open>
  The code behind the \<open>ObjUpdate\<close> pointers is the caller's: \<open>fn_update f\<close> is the
  function at the address \<open>f\<close>, from its argument and the state of the program to the new
  state and its \<open>uint8_t\<close> result.
\<close>

type_synonym update_table = "nat \<Rightarrow> ptr \<Rightarrow> world \<Rightarrow> world \<times> 8 word"

text \<open>
  The block \<open>if (JEMI_CHILDREN_USED == node->state)\<close> of the \<open>JEMI_ARRAY\<close> case: the
  generator, when the node has one, and the closing bracket.
\<close>

definition generate_or_close ::
  "update_table \<Rightarrow> writer_t \<Rightarrow> nat \<Rightarrow> world \<Rightarrow> jemi_node_t \<times> jemi_out_buf_t
     \<Rightarrow> fault + (ptr \<times> world \<times> jemi_out_buf_t)" where
  "generate_or_close fn_update writer_fn a w = (\<lambda>(n1, o1).
     case update n1 of
       None \<Rightarrow> close_container writer_fn CHR '']'' a w (n1, o1)
     | Some f \<Rightarrow>
         if left w \<noteq> 0 then
           (case emit_string writer_fn o1 '','' of
              (o2, failed) \<Rightarrow>
                if failed then Inr (Some a, put_node a n1 w, o2)
                else
                  (case get_children (payload n1) of
                     Inl e \<Rightarrow> Inl e
                   | Inr c \<Rightarrow>
                       (case fn_update f c (put_node a n1 w) of
                          (w1, r) \<Rightarrow>
                            (let w2 = w1\<lparr>left := uint r\<rparr> in
                             case heap w2 a of
                               None \<Rightarrow> Inl Wild_pointer
                             | Some n2 \<Rightarrow>
                                 if left w2 \<noteq> - 1 then
                                   (case get_children (payload n2) of
                                      Inl e \<Rightarrow> Inl e
                                    | Inr c2 \<Rightarrow> Inr (c2, w2, o2))
                                 else close_container writer_fn CHR '']'' a w2 (n2, o2)))))
         else close_container writer_fn CHR '']'' a (w\<lparr>left := - 1\<rparr>) (n1, o1))"

definition emit_array ::
  "update_table \<Rightarrow> writer_t \<Rightarrow> nat \<Rightarrow> jemi_node_t \<Rightarrow> world \<Rightarrow> jemi_out_buf_t
     \<Rightarrow> fault + (ptr \<times> world \<times> jemi_out_buf_t)" where
  "emit_array fn_update writer_fn a n w output =
     (case frag_step writer_fn JEMI_KEY_USED JEMI_CONTAINER_BEGUN ''[''
             (key_step 22 writer_fn (n, output)) of
        (n1, o1) \<Rightarrow>
          if state n1 = JEMI_CONTAINER_BEGUN then descend a w (n1, o1)
          else if state n1 = JEMI_CHILDREN_USED then
            generate_or_close fn_update writer_fn a w (n1, o1)
          else leave a w (n1, o1))"

text \<open>
  \<open>emit_aux\<close>.  The \<open>JEMI_FLOAT\<close> case has no \<open>break\<close>: it runs on into the
  \<open>JEMI_STRING\<close> case.
\<close>

definition emit_aux ::
  "(double \<Rightarrow> string) \<Rightarrow> update_table \<Rightarrow> writer_t \<Rightarrow> ptr \<Rightarrow> world \<Rightarrow> jemi_out_buf_t
     \<Rightarrow> fault + (ptr \<times> world \<times> jemi_out_buf_t)" where
  "emit_aux float_text fn_update writer_fn node w output =
     (case node of
        None \<Rightarrow> Inl Null_deref
      | Some a \<Rightarrow>
          (case heap w a of
             None \<Rightarrow> Inl Wild_pointer
           | Some n \<Rightarrow>
               (case type n of
                  JEMI_OBJECT \<Rightarrow> emit_object writer_fn a n w output
                | JEMI_ARRAY \<Rightarrow> emit_array fn_update writer_fn a n w output
                | JEMI_INTEGER \<Rightarrow>
                    (case scalar 22 writer_fn integer_text (n, output) of
                       Inl e \<Rightarrow> Inl e | Inr r \<Rightarrow> leave a w r)
                | JEMI_FLOAT \<Rightarrow>
                    (case scalar 22 writer_fn (number_text float_text) (n, output) of
                       Inl e \<Rightarrow> Inl e
                     | Inr r \<Rightarrow>
                         (case scalar 30 writer_fn string_text r of
                            Inl e \<Rightarrow> Inl e | Inr r' \<Rightarrow> leave a w r'))
                | JEMI_STRING \<Rightarrow>
                    (case scalar 30 writer_fn string_text (n, output) of
                       Inl e \<Rightarrow> Inl e | Inr r \<Rightarrow> leave a w r)
                | JEMI_TRUE \<Rightarrow>
                    (case scalar 22 writer_fn bool_text (n, output) of
                       Inl e \<Rightarrow> Inl e | Inr r \<Rightarrow> leave a w r)
                | JEMI_FALSE \<Rightarrow>
                    (case scalar 22 writer_fn bool_text (n, output) of
                       Inl e \<Rightarrow> Inl e | Inr r \<Rightarrow> leave a w r)
                | JEMI_NULL \<Rightarrow>
                    (case scalar 22 writer_fn null_text (n, output) of
                       Inl e \<Rightarrow> Inl e | Inr r \<Rightarrow> leave a w r))))"

text \<open>
  The \<open>do ... while\<close> loop of \<open>jemi_emit\<close>.  It does not end on a cyclic structure or
  with a generator that never stops: \<open>None\<close> is "does not return".
\<close>

partial_function (option) emit_loop ::
  "(double \<Rightarrow> string) \<Rightarrow> update_table \<Rightarrow> writer_t \<Rightarrow> ptr \<Rightarrow> world \<Rightarrow> jemi_out_buf_t
     \<Rightarrow> (fault + (ptr \<times> world \<times> jemi_out_buf_t)) option" where
  [code]: "emit_loop float_text fn_update writer_fn next_node w output =
     (case emit_aux float_text fn_update writer_fn next_node w output of
        Inl e \<Rightarrow> Some (Inl e)
      | Inr (next_node', w', output') \<Rightarrow>
          if next_node' \<noteq> None \<and> full output' = False
          then emit_loop float_text fn_update writer_fn next_node' w' output'
          else Some (Inr (next_node', w', output')))"

definition jemi_emit ::
  "(double \<Rightarrow> string) \<Rightarrow> update_table \<Rightarrow> writer_t \<Rightarrow> ptr \<Rightarrow> world \<Rightarrow> jemi_out_buf_t
     \<Rightarrow> (fault + (ptr \<times> world \<times> jemi_out_buf_t)) option" where
  "jemi_emit float_text fn_update writer_fn root w output =
     (case emit_loop float_text fn_update writer_fn root w output of
        None \<Rightarrow> None
      | Some (Inl e) \<Rightarrow> Some (Inl e)
      | Some (Inr (next_node', w', output')) \<Rightarrow>
          Some (Inr (next_node', w', output'\<lparr>buf := writer_fn CHR 0x00 (buf output')\<rparr>)))"

text \<open>
  Modelled from the spec: the caller's writer callback is not part of the sources.  The
  sink contract is a byte-accepting callback; this one stores each character behind
  those already written.
\<close>

definition put_char :: writer_t where
  "put_char ch b = b @ [ch]"

section \<open>Concrete inputs\<close>

text \<open>
  A state with no memory, sinks of a given \<open>bufLen\<close>, a table of generators that do
  nothing, a float format that prints nothing, and projections of results, for stating
  the properties at concrete inputs.
\<close>

definition no_world :: world where
  "no_world = \<lparr>heap = (\<lambda>a. None), s_jemi_freelist = None, left = - 1\<rparr>"

definition sink :: "nat \<Rightarrow> jemi_out_buf_t" where
  "sink c = \<lparr>buf = [], bufLen = of_nat c, full = False\<rparr>"

definition no_update :: update_table where
  "no_update f c w = (w, 0)"

definition no_float :: "double \<Rightarrow> string" where
  "no_float d = []"

definition emitted :: "fault + (ptr \<times> world \<times> jemi_out_buf_t) \<Rightarrow> fault + string" where
  "emitted r = (case r of Inl e \<Rightarrow> Inl e | Inr (nx, w, output) \<Rightarrow> Inr (buf output))"

definition one_node :: "jemi_node_t \<Rightarrow> world" where
  "one_node n = \<lparr>heap = (\<lambda>a. None)(0 \<mapsto> n), s_jemi_freelist = None, left = - 1\<rparr>"

definition seq :: "(fault + 'a) option \<Rightarrow> ('a \<Rightarrow> (fault + 'b) option) \<Rightarrow> (fault + 'b) option" where
  "seq m f = (case m of None \<Rightarrow> None | Some (Inl e) \<Rightarrow> Some (Inl e) | Some (Inr x) \<Rightarrow> f x)"

definition node_at :: "(fault + (ptr \<times> world)) option \<Rightarrow> nat \<Rightarrow> jemi_node_t option" where
  "node_at r a = (case r of Some (Inr (p, w)) \<Rightarrow> heap w a | _ \<Rightarrow> None)"

definition text_of :: "(fault + (ptr \<times> world \<times> jemi_out_buf_t)) option \<Rightarrow> (ptr \<times> string) option" where
  "text_of r = (case r of Some (Inr (nx, w, output)) \<Rightarrow> Some (nx, buf output) | _ \<Rightarrow> None)"

text \<open>
  An empty array, two \<open>null\<close> nodes made into a list, and the list appended to the
  array, in a pool of three nodes: the array is node 2, the list is the nodes 1 and 0.
\<close>

definition appended :: "(fault + (ptr \<times> world)) option" where
  "appended =
     seq (Some (jemi_array None None [] (jemi_reset 0 3 no_world))) (\<lambda>(x, w).
     seq (Some (jemi_null w)) (\<lambda>(a, w).
     seq (Some (jemi_null w)) (\<lambda>(b, w).
     seq (Some (jemi_list a [b, None] w)) (\<lambda>(l, w).
     jemi_array_append x l w))))"

text \<open>Emitting what a construction returned, into one sink.\<close>

definition emit_result ::
  "(fault + (ptr \<times> world)) option \<Rightarrow> nat \<Rightarrow> (fault + (ptr \<times> world \<times> jemi_out_buf_t)) option" where
  "emit_result r c = seq r (\<lambda>(x, w). jemi_emit no_float no_update put_char x w (sink c))"

text \<open>A \<open>JEMI_FLOAT\<close> node holding 1.5 (bit pattern \<open>0x3FF8000000000000\<close>), and its copy.\<close>

definition copied_float :: "(fault + (ptr \<times> world)) option" where
  "copied_float =
     seq (Some (jemi_alloc JEMI_FLOAT (jemi_reset 0 2 no_world))) (\<lambda>(n, w).
     seq (Some (jemi_float_set n 0x3FF8000000000000 w)) (\<lambda>(n, w).
     jemi_copy 3 n w))"

text \<open>A freelist as the list of its addresses, in order.\<close>

fun fl_chain :: "heap \<Rightarrow> ptr \<Rightarrow> nat list \<Rightarrow> bool" where
  "fl_chain h p [] = (p = None)"
| "fl_chain h p (a # as) =
     (p = Some a \<and> (case h a of None \<Rightarrow> False | Some n \<Rightarrow> fl_chain h (sibling n) as))"

text \<open>A memory holding the nodes of a list at the addresses 0, 1, ..., and a value of \<open>left\<close>.\<close>

definition mem :: "jemi_node_t list \<Rightarrow> int \<Rightarrow> world" where
  "mem ns l = \<lparr>heap = (\<lambda>a. if a < length ns then Some (ns ! a) else None),
               s_jemi_freelist = None, left = l\<rparr>"

definition next_of :: "fault + (ptr \<times> world \<times> jemi_out_buf_t) \<Rightarrow> fault + ptr" where
  "next_of r = (case r of Inl e \<Rightarrow> Inl e | Inr (nx, w, output) \<Rightarrow> Inr nx)"

definition full_of :: "fault + (ptr \<times> world \<times> jemi_out_buf_t) \<Rightarrow> fault + bool" where
  "full_of r = (case r of Inl e \<Rightarrow> Inl e | Inr (nx, w, output) \<Rightarrow> Inr (full output))"

definition state_of :: "fault + (ptr \<times> world \<times> jemi_out_buf_t) \<Rightarrow> nat \<Rightarrow> jemi_state_t option" where
  "state_of r a = (case r of Inl e \<Rightarrow> None | Inr (nx, w, output) \<Rightarrow> map_option state (heap w a))"

text \<open>The next step of the automaton after a step, with a new sink.\<close>

definition retry ::
  "fault + (ptr \<times> world \<times> jemi_out_buf_t) \<Rightarrow> nat \<Rightarrow> fault + (ptr \<times> world \<times> jemi_out_buf_t)" where
  "retry r c =
     (case r of
        Inl e \<Rightarrow> Inl e
      | Inr (nx, w, output) \<Rightarrow> emit_aux no_float no_update put_char nx w (sink c))"

text \<open>
  An array with a generator (the function at address 0) whose children have been emitted;
  with one child and \<open>left = -1\<close>, and with no child and \<open>left = 0\<close>.
\<close>

definition stream_array :: "ptr \<Rightarrow> jemi_node_t" where
  "stream_array c = zero_node\<lparr>type := JEMI_ARRAY, state := JEMI_CHILDREN_USED,
     payload := U_children c, update := Some 0\<rparr>"

definition stream_world :: world where
  "stream_world = mem [stream_array (Some 1), zero_node\<lparr>parent := Some 0\<rparr>] (- 1)"

definition closing_world :: world where
  "closing_world = mem [stream_array None] 0"

text \<open>
  A \<open>JEMI_FLOAT\<close> node holding 1.5, and a float format that gives the text of \<open>%lf\<close>
  for 1.5 (the number is not integral) and \<open>0\<close> for any other bit pattern.
\<close>

definition float_node :: jemi_node_t where
  "float_node = zero_node\<lparr>type := JEMI_FLOAT, payload := U_number 0x3FF8000000000000\<rparr>"

definition lf_text :: "double \<Rightarrow> string" where
  "lf_text d = (if d = 0x3FF8000000000000 then ''1.500000'' else ''0'')"

section \<open>Emission in chunks\<close>





section \<open>Notions for the proofs\<close>







section \<open>Properties\<close>

subsection \<open>Helper lemmas\<close>

lemmas build_defs = seq_def jemi_reset_def memset_pool_def jemi_alloc_def zero_node_def no_world_def
  jemi_array_def container_def jemi_null_def jemi_list_def jemi_array_append_def
  jemi_list_append_def walk_last.simps get_children_def node_at_def

lemmas emit_defs = emit_aux_def scalar_def key_step_def value_step_def
      comma_step_def frag_step_def emit_string_def bool_text_def sink_def leave_def
      strlen_def c_str_def put_char_def emit_object_def emit_array_def generate_or_close_def descend_def close_container_def
      closing_def snprintf_def onward_def put_node_def null_text_def integer_text_def string_text_def
      get_integer_def get_string_def get_children_def fmt_d_def fmt_key_def fmt_str_def dq_def

lemma available_loop_chain:
  "fl_chain h p as \<Longrightarrow> available_loop h p c = Some (Inr (c + length as))"
proof (induction as arbitrary: p c)
  case Nil
  then show ?case by (simp add: available_loop.simps)
next
  case (Cons a as)
  then obtain n where n: "p = Some a" "h a = Some n" "fl_chain h (sibling n) as"
    by (auto split: option.splits)
  from Cons.IH [OF n(3), of "c + 1"] n(1,2) show ?case
    by (subst available_loop.simps) simp
qed

lemma fl_chain_upd: "a \<notin> set as \<Longrightarrow> fl_chain (h(a := x)) p as = fl_chain h p as"
  by (induction as arbitrary: p) (auto split: option.splits)

lemma reset_loop_chain:
  "fl_chain h next as \<Longrightarrow> \<forall>a \<in> set as. a < pool + i \<Longrightarrow>
   \<forall>j. i \<le> j \<and> j < N \<longrightarrow> h (pool + j) \<noteq> None \<Longrightarrow>
   reset_loop pool N i next h = (nx, h') \<Longrightarrow>
   fl_chain h' nx (rev (map (\<lambda>j. pool + j) [i..<N]) @ as)"
proof (induction pool N i "next" h arbitrary: as rule: reset_loop.induct)
  case (1 pool N i nxt h)
  show ?case
  proof (cases "i < N")
    case False
    with "1.prems" show ?thesis by simp
  next
    case True
    obtain n where n: "h (pool + i) = Some n" using "1.prems"(3) True by auto
    let ?h = "h(pool + i := map_option (\<lambda>n. n\<lparr>sibling := nxt\<rparr>) (h (pool + i)))"
    have notin: "pool + i \<notin> set as" using "1.prems"(2) by auto
    have c: "fl_chain ?h (Some (pool + i)) ((pool + i) # as)"
      using n notin "1.prems"(1) by (simp add: fl_chain_upd)
    have b: "\<forall>a \<in> set ((pool + i) # as). a < pool + (i + 1)" using "1.prems"(2) by auto
    have e: "\<forall>j. i + 1 \<le> j \<and> j < N \<longrightarrow> ?h (pool + j) \<noteq> None" using "1.prems"(3) by auto
    have r: "reset_loop pool N (i + 1) (Some (pool + i)) ?h = (nx, h')"
      using "1.prems"(4) True by simp
    from "1.IH" [OF True c b e r] True show ?thesis
      by (simp add: upt_conv_Cons)
  qed
qed

lemma jemi_reset_chain:
  "fl_chain (heap (jemi_reset pool N w)) (s_jemi_freelist (jemi_reset pool N w))
     (rev (map (\<lambda>j. pool + j) [0..<N]))"
proof -
  obtain nx h' where r: "reset_loop pool N 0 None (memset_pool pool N (heap w)) = (nx, h')"
    by (cases "reset_loop pool N 0 None (memset_pool pool N (heap w))")
  have "fl_chain h' nx (rev (map (\<lambda>j. pool + j) [0..<N]) @ [])"
    by (rule reset_loop_chain [OF _ _ _ r]) (simp_all add: memset_pool_def)
  with r show ?thesis by (simp add: jemi_reset_def)
qed

lemma jemi_alloc_chain:
  "fl_chain (heap w) (s_jemi_freelist w) as \<Longrightarrow> distinct as \<Longrightarrow> jemi_alloc t w = Inr (p, w') \<Longrightarrow>
   (case as of [] \<Rightarrow> p = None \<and> w' = w
    | a # as' \<Rightarrow> p = Some a \<and> fl_chain (heap w') (s_jemi_freelist w') as')"
  by (cases as) (auto simp: jemi_alloc_def fl_chain_upd split: option.splits)

lemma alloc_many_chain:
  "fl_chain (heap w) (s_jemi_freelist w) as \<Longrightarrow> distinct as \<Longrightarrow>
   alloc_many ts w = Inr (ps, w') \<Longrightarrow> None \<notin> set ps \<Longrightarrow>
   length ts \<le> length as \<and> fl_chain (heap w') (s_jemi_freelist w') (drop (length ts) as)"
proof (induction ts arbitrary: w as ps)
  case Nil
  then show ?case by simp
next
  case (Cons t ts)
  from Cons.prems(3) obtain p w1 ps1 where
    a: "jemi_alloc t w = Inr (p, w1)" and m: "alloc_many ts w1 = Inr (ps1, w')" and ps: "ps = p # ps1"
    by (auto split: sum.splits)
  from Cons.prems(4) ps have pn: "p \<noteq> None" "None \<notin> set ps1" by (cases p; simp)+
  from jemi_alloc_chain [OF Cons.prems(1,2) a] pn(1) obtain a' as' where
    as: "as = a' # as'" and c: "fl_chain (heap w1) (s_jemi_freelist w1) as'"
    by (cases as) auto
  from Cons.prems(2) as have d: "distinct as'" by simp
  from Cons.IH [OF c d m pn(2)] as show ?case by simp
qed

lemma distinct_pool: "distinct (rev (map (\<lambda>j. pool + j) [0..<N]))"
  by (simp add: distinct_map inj_on_def)

lemma foldl_put_char: "foldl (\<lambda>b ch. put_char ch b) b xs = b @ xs"
  by (induction xs arbitrary: b) (simp_all add: put_char_def)

lemma c_str_no_nul: "CHR 0x00 \<notin> set xs \<Longrightarrow> c_str xs = xs"
  by (auto simp: c_str_def takeWhile_eq_all_conv)

lemma c_str_nul_free: "CHR 0x00 \<notin> set (c_str xs)"
  unfolding c_str_def by (induction xs) auto

lemma c_str_fmt_str: "c_str (fmt_str s) = fmt_str s"
  by (rule c_str_no_nul) (simp add: fmt_str_def dq_def c_str_nul_free)


lemma emit_string_put_char:
  "emit_string put_char output data =
     (if bufLen output \<noteq> 0 \<and> strlen (buf output) + strlen data > unat (bufLen output) - 1
      then (output\<lparr>full := True\<rparr>, True)
      else (output\<lparr>buf := buf output @ c_str data\<rparr>, False))"
  by (simp add: emit_string_def foldl_put_char)

lemmas stream_defs = stream_world_def stream_array_def mem_def zero_node_def sink_def no_update_def
  emit_string_put_char strlen_def c_str_def get_children_def




















































subsection \<open>Arena\<close>

text \<open>
  C9 (arena conservation).  Right after \<open>jemi_reset pool N\<close>, \<open>jemi_available\<close> returns
  \<open>N\<close>; and after any allocations that all returned a node, with no reset in between,
  it returns \<open>N\<close> minus their number.  (\<open>N\<close> is in the range of the \<open>int\<close> index of the
  loop of \<open>jemi_reset\<close>.)
\<close>

theorem arena_conservation:
  assumes "N < 2 ^ 31"
  shows "jemi_available (jemi_reset pool N w) = Some (Inr N) \<and>
   (\<forall>ts ps w'. alloc_many ts (jemi_reset pool N w) = Inr (ps, w') \<and> None \<notin> set ps \<longrightarrow>
      jemi_available w' = Some (Inr (N - length ts)))"
proof (intro conjI allI impI)
  show "jemi_available (jemi_reset pool N w) = Some (Inr N)"
    using available_loop_chain [OF jemi_reset_chain, of pool N w 0]
    by (simp add: jemi_available_def)
next
  fix ts ps w'
  assume a: "alloc_many ts (jemi_reset pool N w) = Inr (ps, w') \<and> None \<notin> set ps"
  from alloc_many_chain [OF jemi_reset_chain distinct_pool, of ts pool N w ps w'] a
  have "fl_chain (heap w') (s_jemi_freelist w') (drop (length ts) (rev (map (\<lambda>j. pool + j) [0..<N])))"
    and "length ts \<le> N" by auto
  from available_loop_chain [OF this(1), of 0] show "jemi_available w' = Some (Inr (N - length ts))"
    by (simp add: jemi_available_def)
qed

lemma alloc_two:
  "case alloc_many [JEMI_TRUE, JEMI_NULL] (jemi_reset 0 3 no_world) of
     Inl e \<Rightarrow> False | Inr (ps, w') \<Rightarrow> ps = [Some 2, Some 1]"
  by (simp add: jemi_reset_def memset_pool_def jemi_alloc_def zero_node_def no_world_def)

theorem arena_conservation_witness:
  "\<exists>ps w'. alloc_many [JEMI_TRUE, JEMI_NULL] (jemi_reset 0 3 no_world) = Inr (ps, w') \<and>
      None \<notin> set ps \<and> jemi_available (jemi_reset 0 3 no_world) = Some (Inr 3) \<and>
      jemi_available w' = Some (Inr 1)"
proof -
  from alloc_two obtain ps w' where
    a: "alloc_many [JEMI_TRUE, JEMI_NULL] (jemi_reset 0 3 no_world) = Inr (ps, w')"
    and p: "ps = [Some 2, Some 1]"
    by (auto split: sum.splits)
  from p have n: "None \<notin> set ps" by simp
  have "(3::nat) < 2 ^ 31" by simp
  from arena_conservation [OF this, of 0 no_world] a n
  have "jemi_available (jemi_reset 0 3 no_world) = Some (Inr 3)"
    and "jemi_available w' = Some (Inr (3 - length [JEMI_TRUE, JEMI_NULL]))"
    by blast+
  with a n show ?thesis by simp
qed

subsection \<open>Constructors on an empty freelist\<close>

text \<open>
  C4 (constructor exhaustion tolerance).  The claim asks every constructor to return
  "no node" on an empty freelist.  On the empty arena \<open>jemi_integer\<close> and
  \<open>jemi_string\<close> do; \<open>jemi_bool\<close>, \<open>jemi_array\<close>, \<open>jemi_array_updateable\<close> and
  \<open>jemi_object\<close> store the key through the \<open>NULL\<close> they got from \<open>jemi_alloc\<close>.
\<close>

theorem exhausted_constructors_fault:
  "jemi_bool k b (jemi_reset 0 0 no_world) = Inl Null_deref \<and>
   jemi_array k e ap (jemi_reset 0 0 no_world) = Inl Null_deref \<and>
   jemi_array_updateable k u l e ap (jemi_reset 0 0 no_world) = Inl Null_deref \<and>
   jemi_object k e ap (jemi_reset 0 0 no_world) = Inl Null_deref \<and>
   jemi_integer k i (jemi_reset 0 0 no_world) = Inr (None, jemi_reset 0 0 no_world) \<and>
   jemi_string k s (jemi_reset 0 0 no_world) = Inr (None, jemi_reset 0 0 no_world)"
  by (simp add: jemi_bool_def jemi_array_def jemi_array_updateable_def jemi_object_def
      container_def jemi_true_def jemi_false_def jemi_alloc_def jemi_reset_def no_world_def
      jemi_integer_def jemi_string_def init_scalar_def)

subsection \<open>Boolean literals\<close>

text \<open>
  C3 (boolean literals).  The claim asks a node of kind True to emit \<open>true\<close>.  The text
  chosen for both boolean kinds is \<open>false\<close> in every state, because the test compares
  the node's state with \<open>JEMI_TRUE\<close>; a True node in state \<open>JEMI_KEY_USED\<close> emits
  \<open>false\<close>.
\<close>

theorem true_emits_false:
  "bool_text n = Inr ''false'' \<and>
   emitted (emit_aux no_float no_update put_char (Some 0)
     (one_node (zero_node\<lparr>type := JEMI_TRUE, state := JEMI_KEY_USED\<rparr>)) (sink 100)) = Inr ''false''"
  apply (rule conjI)
   apply (cases "state n"; simp add: bool_text_def)
  apply (simp add: emit_aux_def one_node_def zero_node_def scalar_def key_step_def value_step_def
      comma_step_def frag_step_def emit_string_def bool_text_def sink_def leave_def emitted_def
      strlen_def c_str_def put_char_def)
  done

subsection \<open>Parent links\<close>

text \<open>
  C5 (parent-link invariant).  The claim asks that \<open>jemi_array_append\<close> sets \<open>parent\<close>
  on every element of the appended chain.  Appending the chain of the nodes 1 and 0 to
  the empty array 2 sets the parent of node 1 only: node 0 is reached from the array's
  children and has no parent.  Emitting the array then ends at node 0, before the closing
  bracket.
\<close>

theorem append_leaves_parent_unset:
  "map_option payload (node_at appended 2) = Some (U_children (Some 1)) \<and>
   map_option sibling (node_at appended 1) = Some (Some 0) \<and>
   map_option parent (node_at appended 1) = Some (Some 2) \<and>
   map_option parent (node_at appended 0) = Some None \<and>
   text_of (emit_result appended 100) = Some (None, ''[null,null'' @ [CHR 0x00])"
  by (simp add: appended_def emit_result_def build_defs jemi_emit_def emit_loop.simps emit_defs
      text_of_def)

subsection \<open>Copying\<close>

text \<open>
  C6 (copy semantics).  The claim asks the clone's numeric payload to equal the source's.
  The copy (node 0) of a \<open>JEMI_FLOAT\<close> node (node 1) holding 1.5 has the kind of its
  source and a zeroed union: the number is not copied.
\<close>

theorem copy_drops_number:
  "map_option payload (node_at copied_float 1) = Some (U_number 0x3FF8000000000000) \<and>
   map_option type (node_at copied_float 0) = Some JEMI_FLOAT \<and>
   map_option payload (node_at copied_float 0) = Some U_zero \<and>
   map_option fst (case copied_float of Some (Inr r) \<Rightarrow> Some r | _ \<Rightarrow> None) = Some (Some 0)"
  by (simp add: copied_float_def seq_def jemi_reset_def memset_pool_def jemi_alloc_def zero_node_def
      no_world_def jemi_float_set_def set_node_def jemi_copy_def node_at_def numeral_3_eq_3)

subsection \<open>String emission\<close>

text \<open>
  C7 (string emission), amended.  A String node in state \<open>JEMI_KEY_USED\<close> whose string
  has at most 27 characters, with room in the sink for the quoted string, emits one
  double quote, the characters of the string as they are, and one double quote, and
  moves to \<open>JEMI_VAL_USED\<close>; the comma step follows.
\<close>

theorem string_emission:
  assumes n: "heap w a = Some n" "type n = JEMI_STRING" "state n = JEMI_KEY_USED"
      "payload n = U_string (Some s)"
    and len: "length (c_str s) \<le> 27"
    and room: "bufLen output = 0 \<or>
               strlen (buf output) + (length (c_str s) + 2) \<le> unat (bufLen output) - 1"
  shows "emit_aux float_text fn_update put_char (Some a) w output =
           leave a w (comma_step put_char
             (n\<lparr>state := JEMI_VAL_USED\<rparr>, output\<lparr>buf := buf output @ [dq] @ c_str s @ [dq]\<rparr>))"
proof -
  have t: "string_text n = Inr (fmt_str s)"
    using n(4) len by (simp add: string_text_def get_string_def snprintf_def fmt_str_def)
  have l: "strlen (fmt_str s) = length (c_str s) + 2"
    by (simp add: strlen_def c_str_fmt_str) (simp add: fmt_str_def)
  have e: "emit_string put_char output (fmt_str s) =
             (output\<lparr>buf := buf output @ [dq] @ c_str s @ [dq]\<rparr>, False)"
    using room by (auto simp: emit_string_def l foldl_put_char c_str_fmt_str) (simp_all add: fmt_str_def)
  have v: "value_step put_char string_text (key_step 30 put_char (n, output)) =
             Inr (n\<lparr>state := JEMI_VAL_USED\<rparr>, output\<lparr>buf := buf output @ [dq] @ c_str s @ [dq]\<rparr>)"
    using n(3) by (simp add: key_step_def value_step_def t frag_step_def e)
  show ?thesis
    using n(1,2) by (simp add: emit_aux_def scalar_def v)
qed

theorem string_emission_witness:
  "emitted (emit_aux no_float no_update put_char (Some 0)
     (one_node (zero_node\<lparr>type := JEMI_STRING, state := JEMI_KEY_USED,
                           payload := U_string (Some ''hi'')\<rparr>)) (sink 100))
   = Inr [CHR 0x22, CHR ''h'', CHR ''i'', CHR 0x22]"
proof -
  let ?n = "zero_node\<lparr>type := JEMI_STRING, state := JEMI_KEY_USED, payload := U_string (Some ''hi'')\<rparr>"
  have "emit_aux no_float no_update put_char (Some 0) (one_node ?n) (sink 100) =
          leave 0 (one_node ?n) (comma_step put_char
             (?n\<lparr>state := JEMI_VAL_USED\<rparr>, (sink 100)\<lparr>buf := buf (sink 100) @ [dq] @ c_str ''hi'' @ [dq]\<rparr>))"
    by (rule string_emission [where s = "''hi''"])
       (simp_all add: one_node_def zero_node_def c_str_def sink_def strlen_def)
  then show ?thesis
    by (simp add: emitted_def leave_def comma_step_def zero_node_def sink_def c_str_def dq_def)
qed

text \<open>
  The claim as stated, for a string of any length, fails for 28 characters: the text is
  cut to the 29 characters that fit the buffer of 30, and the closing quote is lost.
\<close>

theorem string_emission_counterexample:
  "emitted (emit_aux no_float no_update put_char (Some 0)
     (one_node (zero_node\<lparr>type := JEMI_STRING, state := JEMI_KEY_USED,
                           payload := U_string (Some ''abcdefghijklmnopqrstuvwxyzAB'')\<rparr>)) (sink 100))
   = Inr (CHR 0x22 # ''abcdefghijklmnopqrstuvwxyzAB'') \<and>
   CHR 0x22 # ''abcdefghijklmnopqrstuvwxyzAB'' \<noteq> fmt_str ''abcdefghijklmnopqrstuvwxyzAB''"
  by (simp add: emit_aux_def one_node_def zero_node_def scalar_def key_step_def value_step_def
      comma_step_def frag_step_def emit_string_def string_text_def get_string_def sink_def leave_def
      emitted_def strlen_def c_str_def put_char_def snprintf_def fmt_str_def dq_def)

subsection \<open>Streaming arrays\<close>




subsection \<open>Fragment atomicity\<close>

text \<open>
  C2 (fragment atomicity).  The claim asks that a rejected fragment is attempted again,
  the same, on the next step of the node.  For an array with a generator whose closing
  bracket is rejected (sink of \<open>bufLen\<close> 1), \<open>left\<close> was already set back to \<open>-1\<close>: the
  next step, with room, writes a comma and calls the generator again; the bracket is not
  attempted.
\<close>

theorem closing_bracket_not_retried:
  "full_of (emit_aux no_float no_update put_char (Some 0) closing_world (sink 1)) = Inr True \<and>
   emitted (emit_aux no_float no_update put_char (Some 0) closing_world (sink 1)) = Inr [] \<and>
   next_of (emit_aux no_float no_update put_char (Some 0) closing_world (sink 1)) = Inr (Some 0) \<and>
   state_of (emit_aux no_float no_update put_char (Some 0) closing_world (sink 1)) 0
     = Some JEMI_CHILDREN_USED \<and>
   emitted (retry (emit_aux no_float no_update put_char (Some 0) closing_world (sink 1)) 100) = Inr '','' \<and>
   state_of (retry (emit_aux no_float no_update put_char (Some 0) closing_world (sink 1)) 100) 0
     = Some JEMI_CHILDREN_USED"
  by (simp add: emit_aux_def emit_array_def generate_or_close_def key_step_def frag_step_def put_node_def next_of_def
      emitted_def full_of_def state_of_def retry_def closing_world_def close_container_def closing_def
      snprintf_def leave_def onward_def stream_defs)

subsection \<open>Quiescence after suspension\<close>

text \<open>
  C10 (quiescence after suspension).  The claim asks that nothing but the terminator
  happens in a call once the flag is set.  For a \<open>JEMI_FLOAT\<close> node holding 1.5 and a
  sink of 3 characters, the blocks of the \<open>JEMI_FLOAT\<close> case end with the number
  rejected, the flag set and the node in state \<open>JEMI_KEY_USED\<close>; the case has no
  \<open>break\<close>, so the blocks of the \<open>JEMI_STRING\<close> case run on that result and format the
  union, which holds the number, as a string: \<open>emit_aux\<close> faults after the flag is set,
  and \<open>jemi_emit\<close> does not come to write the terminator.
\<close>

theorem float_runs_on_after_full:
  "scalar 22 put_char (number_text lf_text) (float_node, sink 4) =
     Inr (float_node\<lparr>state := JEMI_KEY_USED\<rparr>, (sink 4)\<lparr>full := True\<rparr>) \<and>
   scalar 30 put_char string_text (float_node\<lparr>state := JEMI_KEY_USED\<rparr>, (sink 4)\<lparr>full := True\<rparr>) =
     Inl Union_misread \<and>
   emit_aux lf_text no_update put_char (Some 0) (mem [float_node] (- 1)) (sink 4) = Inl Union_misread \<and>
   jemi_emit lf_text no_update put_char (Some 0) (mem [float_node] (- 1)) (sink 4) =
     Some (Inl Union_misread)"
  by (simp add: jemi_emit_def emit_loop.simps emit_aux_def mem_def float_node_def lf_text_def
      zero_node_def scalar_def key_step_def value_step_def comma_step_def frag_step_def
      emit_string_put_char number_text_def string_text_def get_number_def get_string_def sink_def
      strlen_def c_str_def snprintf_def)

subsection \<open>Resumed emission\<close>




end
